theory Spec2Isabelle
  imports Complex_Main
begin

section \<open>Conventions of the embedding\<close>

text \<open>
  The simulator is written in Python.  Python \<^verbatim>\<open>int\<close> is modelled by \<^typ>\<open>int\<close>,
  Python \<^verbatim>\<open>float\<close> by \<^typ>\<open>real\<close>: rounding, NaN, infinities and the range errors of
  \<^verbatim>\<open>math.exp\<close> are outside this model.  Exceptions are values of the type
  \<open>py_error\<close>, returned on the left of a sum.  Mutation of an object is a function
  that returns the updated object.
\<close>

datatype py_error = ZeroDivisionError | ValueError

subsection \<open>constants.py\<close>

definition BATTERY_CAPACITY_MAH :: real where "BATTERY_CAPACITY_MAH = 5000"
definition BATTERY_VOLTAGE_V :: real where "BATTERY_VOLTAGE_V = 14.8"
definition MAX_HOVER_TIME_S :: real where "MAX_HOVER_TIME_S = 1200"
definition ENERGY_DRAIN_PER_METER :: real where "ENERGY_DRAIN_PER_METER = 0.08"
definition ENERGY_DRAIN_HOVER_PER_SEC :: real where "ENERGY_DRAIN_HOVER_PER_SEC = 0.0001"
definition BATTERY_MIN_PERCENT :: real where "BATTERY_MIN_PERCENT = 20"
definition MAX_PAYLOAD_UNITS :: real where "MAX_PAYLOAD_UNITS = 40"
definition PAYLOAD_DRAIN_PER_SUPPRESSION :: real where "PAYLOAD_DRAIN_PER_SUPPRESSION = 1"

definition clamp :: "real \<Rightarrow> real \<Rightarrow> real \<Rightarrow> real" where
  "clamp v min_val max_val = max min_val (min max_val v)"

section \<open>energy_model.py\<close>

record BatteryState =
  battery_percent :: real
  battery_mah_remaining :: real
  battery_energy_wh :: real
  voltage_v :: real
  time_to_empty_s :: "real option"
  critical :: bool
  depleted :: bool

record BatteryModel =
  capacity_mah :: real
  nominal_voltage_v :: real
  total_energy_wh :: real
  remaining_energy_wh :: real
  nominal_drain_rate :: real

text \<open>\<^verbatim>\<open>BatteryModel.__init__\<close>\<close>

definition BatteryModel_init :: "real \<Rightarrow> real \<Rightarrow> BatteryModel" where
  "BatteryModel_init cap v =
     \<lparr> capacity_mah = cap, nominal_voltage_v = v,
       total_energy_wh = (cap / 1000) * v,
       remaining_energy_wh = (cap / 1000) * v,
       nominal_drain_rate = 1 / (MAX_HOVER_TIME_S * 3600) \<rparr>"

text \<open>
  \<^verbatim>\<open>BatteryModel.get_state\<close>.  The three float divisions raise
  \<^verbatim>\<open>ZeroDivisionError\<close> on a zero divisor, in the order of the source: the
  percentage first, then the time to empty (whose \<^verbatim>\<open>else\<close> branch,
  \<^verbatim>\<open>float('inf')\<close>, has no real value and is kept as \<open>None\<close> here),
  then the remaining mAh inside the constructor call.
\<close>

definition battery_get_state :: "BatteryModel \<Rightarrow> py_error + BatteryState" where
  "battery_get_state b =
     (if total_energy_wh b = 0 then Inl ZeroDivisionError
      else let pct = clamp ((remaining_energy_wh b / total_energy_wh b) * 100) 0 100 in
        if nominal_drain_rate b > 0 \<and> total_energy_wh b * nominal_drain_rate b = 0
        then Inl ZeroDivisionError
        else if nominal_voltage_v b = 0 then Inl ZeroDivisionError
        else Inr \<lparr> battery_percent = pct,
                   battery_mah_remaining = (remaining_energy_wh b / nominal_voltage_v b) * 1000,
                   battery_energy_wh = remaining_energy_wh b,
                   voltage_v = nominal_voltage_v b,
                   time_to_empty_s =
                     (if nominal_drain_rate b > 0
                      then Some (remaining_energy_wh b
                                 / (total_energy_wh b * nominal_drain_rate b))
                      else None),
                   critical = (pct < BATTERY_MIN_PERCENT),
                   depleted = (pct \<le> 0) \<rparr>)"

text \<open>The drains and charges return the value of the call and the battery after it.\<close>

definition drain_flight :: "real \<Rightarrow> real \<Rightarrow> BatteryModel \<Rightarrow> real \<times> BatteryModel" where
  "drain_flight distance_m aggressiveness b =
     (let energy_consumed = distance_m * ENERGY_DRAIN_PER_METER * aggressiveness
      in (energy_consumed,
          b\<lparr>remaining_energy_wh := max 0 (remaining_energy_wh b - energy_consumed)\<rparr>))"

definition drain_hover :: "real \<Rightarrow> BatteryModel \<Rightarrow> real \<times> BatteryModel" where
  "drain_hover time_s b =
     (let energy_consumed = time_s * ENERGY_DRAIN_HOVER_PER_SEC
      in (energy_consumed,
          b\<lparr>remaining_energy_wh := max 0 (remaining_energy_wh b - energy_consumed)\<rparr>))"

definition drain_custom :: "real \<Rightarrow> BatteryModel \<Rightarrow> real \<times> BatteryModel" where
  "drain_custom energy_wh b =
     (let energy_drained = min energy_wh (remaining_energy_wh b)
      in (energy_drained, b\<lparr>remaining_energy_wh := remaining_energy_wh b - energy_drained\<rparr>))"

definition charge :: "real \<Rightarrow> BatteryModel \<Rightarrow> real \<times> BatteryModel" where
  "charge energy_wh b =
     (let energy_added = min energy_wh (total_energy_wh b - remaining_energy_wh b)
      in (energy_added, b\<lparr>remaining_energy_wh := remaining_energy_wh b + energy_added\<rparr>))"

definition charge_percent :: "real \<Rightarrow> BatteryModel \<Rightarrow> BatteryModel" where
  "charge_percent percent b =
     b\<lparr>remaining_energy_wh :=
         clamp ((percent / 100) * total_energy_wh b) 0 (total_energy_wh b)\<rparr>"

definition battery_is_critical :: "BatteryModel \<Rightarrow> py_error + bool" where
  "battery_is_critical b =
     (case battery_get_state b of Inl e \<Rightarrow> Inl e | Inr st \<Rightarrow> Inr (critical st))"

record PayloadModel =
  max_payload_units :: real
  payload_units :: real

definition PayloadModel_init :: "real \<Rightarrow> PayloadModel" where
  "PayloadModel_init m = \<lparr> max_payload_units = m, payload_units = m \<rparr>"

definition consume :: "real \<Rightarrow> PayloadModel \<Rightarrow> real \<times> PayloadModel" where
  "consume units p =
     (min units (payload_units p), p\<lparr>payload_units := max 0 (payload_units p - units)\<rparr>)"

definition refill :: "PayloadModel \<Rightarrow> PayloadModel" where
  "refill p = p\<lparr>payload_units := max_payload_units p\<rparr>"

definition payload_is_empty :: "PayloadModel \<Rightarrow> bool" where
  "payload_is_empty p = (payload_units p \<le> 0)"

record EnergyManager =
  battery :: BatteryModel
  payload :: PayloadModel

definition EnergyManager_init :: "real \<Rightarrow> real \<Rightarrow> real \<Rightarrow> EnergyManager" where
  "EnergyManager_init cap v m =
     \<lparr> battery = BatteryModel_init cap v, payload = PayloadModel_init m \<rparr>"

definition should_rtl_override :: "EnergyManager \<Rightarrow> py_error + (bool \<times> string)" where
  "should_rtl_override em =
     (case battery_is_critical (battery em) of
        Inl e \<Rightarrow> Inl e
      | Inr c \<Rightarrow>
          if c then Inr (True, ''battery_critical'')
          else if payload_is_empty (payload em) then Inr (True, ''payload_empty'')
          else Inr (False, ''none''))"

definition update_flight :: "real \<Rightarrow> real \<Rightarrow> real \<Rightarrow> EnergyManager \<Rightarrow> real \<times> EnergyManager" where
  "update_flight distance_m hover_time_s aggressiveness em =
     (let (e1, b1) = drain_flight distance_m aggressiveness (battery em);
          (e2, b2) = drain_hover hover_time_s b1
      in (e1 + e2, em\<lparr>battery := b2\<rparr>))"

definition update_suppression :: "real \<Rightarrow> EnergyManager \<Rightarrow> (real \<times> real) \<times> EnergyManager" where
  "update_suppression strength em =
     (let (payload_consumed, p') = consume (PAYLOAD_DRAIN_PER_SUPPRESSION * strength) (payload em)
      in ((payload_consumed, 0), em\<lparr>payload := p'\<rparr>))"

definition dock :: "EnergyManager \<Rightarrow> EnergyManager" where
  "dock em = em\<lparr>battery := charge_percent 100 (battery em), payload := refill (payload em)\<rparr>"

text \<open>
  \<^verbatim>\<open>PhysicsEngine.should_rtl_override\<close> (physics_engine.py): the engine keeps one
  energy manager per drone id in the dictionary \<^verbatim>\<open>energy_mgrs\<close>.
\<close>

definition pe_should_rtl_override ::
  "(int \<rightharpoonup> EnergyManager) \<Rightarrow> int \<Rightarrow> py_error + (bool \<times> string)" where
  "pe_should_rtl_override energy_mgrs drone =
     (case energy_mgrs drone of
        None \<Rightarrow> Inr (False, ''none'')
      | Some em \<Rightarrow> should_rtl_override em)"

text \<open>
  The operations on one battery and payload, as a command language, to speak about
  sequences of calls.  \<open>Dock\<close> is \<^verbatim>\<open>EnergyManager.dock\<close>.
\<close>

datatype energy_op =
    DrainFlight real real
  | DrainHover real
  | DrainCustom real
  | Charge real
  | ChargePercent real
  | Suppression real
  | Dock

fun apply_energy_op :: "energy_op \<Rightarrow> EnergyManager \<Rightarrow> EnergyManager" where
  "apply_energy_op (DrainFlight d a) em = em\<lparr>battery := snd (drain_flight d a (battery em))\<rparr>"
| "apply_energy_op (DrainHover t) em = em\<lparr>battery := snd (drain_hover t (battery em))\<rparr>"
| "apply_energy_op (DrainCustom e) em = em\<lparr>battery := snd (drain_custom e (battery em))\<rparr>"
| "apply_energy_op (Charge e) em = em\<lparr>battery := snd (charge e (battery em))\<rparr>"
| "apply_energy_op (ChargePercent p) em = em\<lparr>battery := charge_percent p (battery em)\<rparr>"
| "apply_energy_op (Suppression k) em = snd (update_suppression k em)"
| "apply_energy_op Dock em = dock em"

fun run_energy_ops :: "energy_op list \<Rightarrow> EnergyManager \<Rightarrow> EnergyManager" where
  "run_energy_ops [] em = em"
| "run_energy_ops (c # cs) em = run_energy_ops cs (apply_energy_op c em)"

text \<open>The arguments the documentation of the calls allows: no negative amount.\<close>

fun energy_op_ok :: "energy_op \<Rightarrow> bool" where
  "energy_op_ok (DrainFlight d a) = (0 \<le> d \<and> 0 \<le> a)"
| "energy_op_ok (DrainHover t) = (0 \<le> t)"
| "energy_op_ok (DrainCustom e) = (0 \<le> e)"
| "energy_op_ok (Charge e) = (0 \<le> e)"
| "energy_op_ok (ChargePercent p) = True"
| "energy_op_ok (Suppression k) = True"
| "energy_op_ok Dock = True"

fun is_drain :: "energy_op \<Rightarrow> bool" where
  "is_drain (DrainFlight d a) = True"
| "is_drain (DrainHover t) = True"
| "is_drain c = False"

section \<open>channel_model.py: the path-loss model\<close>

record PathLossModel =
  reference_distance_m :: real
  path_loss_exponent :: real
  reference_rssi_dbm :: real

definition REFERENCE_DISTANCE_M :: real where "REFERENCE_DISTANCE_M = 1"
definition PATH_LOSS_EXPONENT :: real where "PATH_LOSS_EXPONENT = 3"
definition REFERENCE_RSSI_DBM :: real where "REFERENCE_RSSI_DBM = -40"

definition PathLossModel_default :: PathLossModel where
  "PathLossModel_default =
     \<lparr> reference_distance_m = REFERENCE_DISTANCE_M,
       path_loss_exponent = PATH_LOSS_EXPONENT,
       reference_rssi_dbm = REFERENCE_RSSI_DBM \<rparr>"

text \<open>
  \<^verbatim>\<open>PathLossModel.calculate_path_loss\<close>.  The float division raises
  \<^verbatim>\<open>ZeroDivisionError\<close> on a zero reference distance and \<^verbatim>\<open>math.log10\<close>
  raises \<^verbatim>\<open>ValueError\<close> on an argument that is not positive.
\<close>

definition calculate_path_loss :: "PathLossModel \<Rightarrow> real \<Rightarrow> py_error + real" where
  "calculate_path_loss m distance_m =
     (if distance_m \<le> 0 then Inr 0
      else if reference_distance_m m = 0 then Inl ZeroDivisionError
      else if distance_m / reference_distance_m m \<le> 0 then Inl ValueError
      else Inr (10 * path_loss_exponent m * log 10 (distance_m / reference_distance_m m)))"

section \<open>detm_controller.py\<close>

definition DETM_ETA0 :: real where "DETM_ETA0 = 0.5"
definition DETM_LAMBDA :: real where "DETM_LAMBDA = 0.1"
definition DETM_MIN_ETA :: real where "DETM_MIN_ETA = 0.01"

text \<open>The 6-tuple \<^verbatim>\<open>(x, y, z, vx, vy, vz)\<close>.\<close>

type_synonym state6 = "real \<times> real \<times> real \<times> real \<times> real \<times> real"

record DetmState =
  drone_id :: int
  eta0 :: real
  lambda_decay :: real
  norm_type :: string
  last_transmitted_state :: state6
  last_transmitted_time_us :: int
  current_eta :: real
  eta_age_ticks :: int
  transmissions_total :: int
  triggers_fired :: int
  triggers_suppressed :: int

record DETMController =
  states :: "int \<rightharpoonup> DetmState"

definition DETMController_init :: DETMController where
  "DETMController_init = \<lparr> states = Map.empty \<rparr>"

text \<open>\<^verbatim>\<open>str.lower\<close>, on the ASCII letters.\<close>

definition lower_char :: "char \<Rightarrow> char" where
  "lower_char c =
     (let n = (of_char c :: nat) in if 65 \<le> n \<and> n \<le> 90 then char_of (n + 32) else c)"

definition lower :: "string \<Rightarrow> string" where
  "lower s = map lower_char s"

definition register_drone ::
  "int \<Rightarrow> real \<Rightarrow> real \<Rightarrow> string \<Rightarrow> DETMController \<Rightarrow> DETMController" where
  "register_drone d e0 lam nt c =
     c\<lparr>states := (states c)(d \<mapsto>
        \<lparr> drone_id = d, eta0 = e0, lambda_decay = lam, norm_type = lower nt,
          last_transmitted_state = (0, 0, 0, 0, 0, 0),
          last_transmitted_time_us = 0,
          current_eta = e0, eta_age_ticks = 0,
          transmissions_total = 0, triggers_fired = 0, triggers_suppressed = 0 \<rparr>)\<rparr>"

text \<open>
  \<^verbatim>\<open>_calculate_error_l2\<close> and \<^verbatim>\<open>_calculate_error_linf\<close>.  Both arguments are
  6-tuples wherever the controller calls them, which the type says here; the guard
  of the source on tuples of different lengths has no input of this type.
\<close>

definition calculate_error_l2 :: "state6 \<Rightarrow> state6 \<Rightarrow> real" where
  "calculate_error_l2 state_current state_last =
     (case (state_current, state_last) of
        ((c1, c2, c3, c4, c5, c6), (l1, l2, l3, l4, l5, l6)) \<Rightarrow>
     sqrt ((c1 - l1)\<^sup>2 + (c2 - l2)\<^sup>2 + (c3 - l3)\<^sup>2
           + (c4 - l4)\<^sup>2 + (c5 - l5)\<^sup>2 + (c6 - l6)\<^sup>2))"

definition calculate_error_linf :: "state6 \<Rightarrow> state6 \<Rightarrow> real" where
  "calculate_error_linf state_current state_last =
     (case (state_current, state_last) of
        ((c1, c2, c3, c4, c5, c6), (l1, l2, l3, l4, l5, l6)) \<Rightarrow>
     Max {\<bar>c1 - l1\<bar>, \<bar>c2 - l2\<bar>, \<bar>c3 - l3\<bar>, \<bar>c4 - l4\<bar>, \<bar>c5 - l5\<bar>, \<bar>c6 - l6\<bar>})"

text \<open>
  \<^verbatim>\<open>DETMController.should_transmit\<close>: the pair it returns and the controller after
  the call (the threshold and the counters of the drone are stored in its record).
\<close>

definition should_transmit ::
  "DETMController \<Rightarrow> int \<Rightarrow> int \<Rightarrow> state6 \<Rightarrow> (bool \<times> real) \<times> DETMController" where
  "should_transmit c d time_us current_state =
     (case states c d of
        None \<Rightarrow> ((True, DETM_ETA0), c)
      | Some st \<Rightarrow>
          let delta_t_us = time_us - last_transmitted_time_us st;
              delta_t_s = real_of_int delta_t_us / 1000000;
              eta = max (eta0 st * exp (- lambda_decay st * delta_t_s)) DETM_MIN_ETA;
              err = (if norm_type st = ''l2''
                     then calculate_error_l2 current_state (last_transmitted_state st)
                     else calculate_error_linf current_state (last_transmitted_state st));
              should_tx = (err > eta);
              st' = (if should_tx
                     then st\<lparr>current_eta := eta, triggers_fired := triggers_fired st + 1\<rparr>
                     else st\<lparr>current_eta := eta,
                            triggers_suppressed := triggers_suppressed st + 1\<rparr>)
          in ((should_tx, eta), c\<lparr>states := (states c)(d \<mapsto> st')\<rparr>))"

definition record_transmission ::
  "DETMController \<Rightarrow> int \<Rightarrow> int \<Rightarrow> state6 \<Rightarrow> DETMController" where
  "record_transmission c d time_us s =
     (case states c d of
        None \<Rightarrow> c
      | Some st \<Rightarrow>
          c\<lparr>states := (states c)(d \<mapsto>
             st\<lparr>last_transmitted_state := s,
                last_transmitted_time_us := time_us,
                transmissions_total := transmissions_total st + 1\<rparr>)\<rparr>)"

section \<open>distributed_observer.py\<close>

text \<open>\<^verbatim>\<open>int(x)\<close> on a float: truncation towards zero.\<close>

definition py_int :: "real \<Rightarrow> int" where
  "py_int r = (if 0 \<le> r then \<lfloor>r\<rfloor> else \<lceil>r\<rceil>)"

record NeighborEstimate =
  neighbor_id :: int
  estimated_x :: real
  estimated_y :: real
  estimated_z :: real
  estimated_vx :: real
  estimated_vy :: real
  estimated_vz :: real
  estimate_time_us :: int
  estimate_age_ticks :: int
  estimate_confidence :: real
  velocity_model_stale :: bool

text \<open>
  The dictionary \<^verbatim>\<open>neighbors\<close> is iterated by \<^verbatim>\<open>check_collision_risk\<close>, so
  its insertion order is kept: an association list, in which a new key goes to the
  end and an old key keeps its place.
\<close>

fun dict_update :: "'k \<Rightarrow> 'v \<Rightarrow> ('k \<times> 'v) list \<Rightarrow> ('k \<times> 'v) list" where
  "dict_update k v [] = [(k, v)]"
| "dict_update k v (p # ps) = (if fst p = k then (k, v) # ps else p # dict_update k v ps)"

record LocalizationObserverState =
  observer_drone_id :: int
  max_latency_ticks :: int
  constant_velocity_timeout_ticks :: int
  confidence_decay_rate :: real
  neighbors :: "(int \<times> NeighborEstimate) list"

record DistributedObserver =
  local_states :: "int \<rightharpoonup> LocalizationObserverState"
  obs_max_latency_ticks :: int
  obs_constant_velocity_timeout_ticks :: int
  confidence_decay_factor :: real

definition DistributedObserver_init :: "real \<Rightarrow> real \<Rightarrow> real \<Rightarrow> DistributedObserver" where
  "DistributedObserver_init max_latency_ms constant_velocity_timeout_ms decay =
     \<lparr> local_states = Map.empty,
       obs_max_latency_ticks = py_int (max_latency_ms / 10),
       obs_constant_velocity_timeout_ticks = py_int (constant_velocity_timeout_ms / 10),
       confidence_decay_factor = decay \<rparr>"

definition fresh_estimate :: "int \<Rightarrow> NeighborEstimate" where
  "fresh_estimate n =
     \<lparr> neighbor_id = n,
       estimated_x = 0, estimated_y = 0, estimated_z = 0,
       estimated_vx = 0, estimated_vy = 0, estimated_vz = 0,
       estimate_time_us = 0, estimate_age_ticks = 0,
       estimate_confidence = 0, velocity_model_stale = True \<rparr>"

definition observer_register_drone ::
  "DistributedObserver \<Rightarrow> int \<Rightarrow> int list \<Rightarrow> DistributedObserver" where
  "observer_register_drone ob d ns =
     ob\<lparr>local_states := (local_states ob)(d \<mapsto>
        \<lparr> observer_drone_id = d,
          max_latency_ticks = obs_max_latency_ticks ob,
          constant_velocity_timeout_ticks = obs_constant_velocity_timeout_ticks ob,
          confidence_decay_rate = confidence_decay_factor ob,
          neighbors = foldl (\<lambda>acc n. dict_update n (fresh_estimate n) acc) [] ns \<rparr>)\<rparr>"

definition update_neighbor ::
  "DistributedObserver \<Rightarrow> int \<Rightarrow> int \<Rightarrow> int \<Rightarrow> state6 \<Rightarrow> DistributedObserver" where
  "update_neighbor ob observer_id n time_us s =
     (case local_states ob observer_id of
        None \<Rightarrow> ob
      | Some observer \<Rightarrow>
          (case s of (px, py, pz, vx, vy, vz) \<Rightarrow>
            (case map_of (neighbors observer) n of
               None \<Rightarrow>
                 ob\<lparr>local_states := (local_states ob)(observer_id \<mapsto>
                    observer\<lparr>neighbors := dict_update n
                      \<lparr> neighbor_id = n,
                        estimated_x = px, estimated_y = py, estimated_z = pz,
                        estimated_vx = vx, estimated_vy = vy, estimated_vz = vz,
                        estimate_time_us = time_us, estimate_age_ticks = 0,
                        estimate_confidence = 1, velocity_model_stale = False \<rparr>
                      (neighbors observer)\<rparr>)\<rparr>
             | Some estimate \<Rightarrow>
                 ob\<lparr>local_states := (local_states ob)(observer_id \<mapsto>
                    observer\<lparr>neighbors := dict_update n
                      (estimate\<lparr>estimated_x := px, estimated_y := py, estimated_z := pz,
                         estimated_vx := vx, estimated_vy := vy, estimated_vz := vz,
                         estimate_time_us := time_us, estimate_age_ticks := 0,
                         estimate_confidence := 1, velocity_model_stale := False\<rparr>)
                      (neighbors observer)\<rparr>)\<rparr>)))"

text \<open>
  The part of \<^verbatim>\<open>predict_neighbor_state\<close> that ages one estimate: the age, the
  confidence, the stale flag and the velocity, in the order of the source.
\<close>

definition age_estimate :: "LocalizationObserverState \<Rightarrow> NeighborEstimate \<Rightarrow> NeighborEstimate" where
  "age_estimate observer estimate =
     (let e1 = estimate\<lparr>estimate_age_ticks := estimate_age_ticks estimate + 1\<rparr>;
          max_age_ticks = (100 :: int);
          age_ratio = min (real_of_int (estimate_age_ticks e1) / real_of_int max_age_ticks) 1;
          e2 = e1\<lparr>estimate_confidence := 1 - 0.8 * age_ratio\<rparr>;
          e3 = (if estimate_age_ticks e2 > max_latency_ticks observer
                then (if \<not> velocity_model_stale e2
                      then e2\<lparr>velocity_model_stale := True\<rparr> else e2)
                else e2);
          e4 = (if estimate_age_ticks e3 > constant_velocity_timeout_ticks observer
                then e3\<lparr>estimated_vx := 0, estimated_vy := 0, estimated_vz := 0\<rparr>
                else e3)
      in e4)"

definition predict_neighbor_state ::
  "DistributedObserver \<Rightarrow> int \<Rightarrow> int \<Rightarrow> int
     \<Rightarrow> (real \<times> real \<times> real \<times> real) option \<times> DistributedObserver" where
  "predict_neighbor_state ob observer_id n current_time_us =
     (case local_states ob observer_id of
        None \<Rightarrow> (None, ob)
      | Some observer \<Rightarrow>
          (case map_of (neighbors observer) n of
             None \<Rightarrow> (None, ob)
           | Some estimate \<Rightarrow>
               let e = age_estimate observer estimate;
                   time_delta_s = real_of_int (current_time_us - estimate_time_us e) / 1000000;
                   predicted_x = estimated_x e + estimated_vx e * time_delta_s;
                   predicted_y = estimated_y e + estimated_vy e * time_delta_s;
                   predicted_z = estimated_z e + estimated_vz e * time_delta_s
               in (Some (predicted_x, predicted_y, predicted_z, estimate_confidence e),
                   ob\<lparr>local_states := (local_states ob)(observer_id \<mapsto>
                      observer\<lparr>neighbors := dict_update n e (neighbors observer)\<rparr>)\<rparr>)))"

definition get_separation_to_neighbor ::
  "DistributedObserver \<Rightarrow> int \<Rightarrow> int \<Rightarrow> int \<Rightarrow> real \<times> real \<times> real
     \<Rightarrow> real option \<times> DistributedObserver" where
  "get_separation_to_neighbor ob observer_id n current_time_us drone_pos =
     (case predict_neighbor_state ob observer_id n current_time_us of
        (None, ob') \<Rightarrow> (None, ob')
      | (Some (pred_x, pred_y, pred_z, conf), ob') \<Rightarrow>
          (case drone_pos of (drone_x, drone_y, drone_z) \<Rightarrow>
             let dx = pred_x - drone_x; dy = pred_y - drone_y; dz = pred_z - drone_z
             in (Some (sqrt (dx\<^sup>2 + dy\<^sup>2 + dz\<^sup>2)), ob')))"

text \<open>
  \<^verbatim>\<open>check_collision_risk\<close>: the loop over the keys of the observer's dictionary,
  taken before the loop starts; each turn calls \<open>get_separation_to_neighbor\<close>
  on the observer as the turns before left it.
\<close>

fun collision_loop ::
  "int \<Rightarrow> int \<Rightarrow> real \<times> real \<times> real \<Rightarrow> real \<Rightarrow> int list
     \<Rightarrow> (int \<times> real) list \<times> DistributedObserver \<Rightarrow> (int \<times> real) list \<times> DistributedObserver" where
  "collision_loop observer_id t pos min_sep [] acc = acc"
| "collision_loop observer_id t pos min_sep (n # ns) (risky, ob) =
     (case get_separation_to_neighbor ob observer_id n t pos of
        (None, ob') \<Rightarrow> collision_loop observer_id t pos min_sep ns (risky, ob')
      | (Some separation, ob') \<Rightarrow>
          collision_loop observer_id t pos min_sep ns
            (if separation < min_sep then risky @ [(n, separation)] else risky, ob'))"

definition check_collision_risk ::
  "DistributedObserver \<Rightarrow> int \<Rightarrow> int \<Rightarrow> real \<times> real \<times> real \<Rightarrow> real
     \<Rightarrow> (int \<times> real) list \<times> DistributedObserver" where
  "check_collision_risk ob observer_id current_time_us pos min_separation_m =
     (case local_states ob observer_id of
        None \<Rightarrow> ([], ob)
      | Some observer \<Rightarrow>
          collision_loop observer_id current_time_us pos min_separation_m
            (map fst (neighbors observer)) ([], ob))"

definition get_observer_state ::
  "DistributedObserver \<Rightarrow> int \<Rightarrow> LocalizationObserverState option" where
  "get_observer_state ob d = local_states ob d"

text \<open>Successive \<^verbatim>\<open>predict_neighbor_state\<close> calls at the times of a list: the
  confidences they return, oldest first, and the observer after the last call.\<close>

fun predict_calls ::
  "DistributedObserver \<Rightarrow> int \<Rightarrow> int \<Rightarrow> int list \<Rightarrow> real option list \<times> DistributedObserver" where
  "predict_calls ob observer_id n [] = ([], ob)"
| "predict_calls ob observer_id n (t # ts) =
     (case predict_neighbor_state ob observer_id n t of
        (r, ob') \<Rightarrow>
          (case predict_calls ob' observer_id n ts of
             (rs, ob'') \<Rightarrow> (map_option (\<lambda>(px, py, pz, conf). conf) r # rs, ob'')))"

section \<open>fire_simulation.py\<close>

definition WIND_SPEED_MS :: real where "WIND_SPEED_MS = 5"
definition WIND_DIRECTION_DEG :: real where "WIND_DIRECTION_DEG = 45"
definition FUEL_DENSITY_FACTOR :: real where "FUEL_DENSITY_FACTOR = 1"
definition SUPPRESSION_EFFECTIVENESS :: real where "SUPPRESSION_EFFECTIVENESS = 0.9"
definition FIRE_INTENSITY_THRESHOLD_DETECTABLE :: real where
  "FIRE_INTENSITY_THRESHOLD_DETECTABLE = 0.1"
definition FIRE_INTENSITY_IGNITION :: real where "FIRE_INTENSITY_IGNITION = 0.5"

datatype CellState = NO_FIRE | BURNING | BURNED | SUPPRESSED

record FireCell =
  cell_x :: int
  cell_y :: int
  state :: CellState
  intensity :: real
  fuel_density :: real
  temperature_k :: real
  ignition_time_us :: int
  suppression_age_ticks :: int


definition is_detectable :: "FireCell \<Rightarrow> bool" where
  "is_detectable c = (intensity c \<ge> FIRE_INTENSITY_THRESHOLD_DETECTABLE)"

record WindModel =
  wind_speed_ms :: real
  wind_direction_deg :: real

text \<open>The float operator \<^verbatim>\<open>%\<close> with a positive divisor.\<close>

definition py_fmod :: "real \<Rightarrow> real \<Rightarrow> real" where
  "py_fmod a m = a - m * of_int \<lfloor>a / m\<rfloor>"

definition WindModel_init :: "real \<Rightarrow> real \<Rightarrow> WindModel" where
  "WindModel_init speed_ms direction_deg =
     \<lparr> wind_speed_ms = speed_ms, wind_direction_deg = py_fmod direction_deg 360 \<rparr>"


definition set_wind :: "real \<Rightarrow> real \<Rightarrow> WindModel \<Rightarrow> WindModel" where
  "set_wind speed_ms direction_deg w =
     w\<lparr>wind_speed_ms := max 0 speed_ms, wind_direction_deg := py_fmod direction_deg 360\<rparr>"

text \<open>
  The simulation object.  The grid of the source is a numpy array read as
  \<^verbatim>\<open>grid[y, x]\<close>, always behind \<^verbatim>\<open>_in_bounds\<close> or inside the two ranges of a
  loop; here it is a function of the pair \<open>(x, y)\<close>, whose values outside the
  bounds are never read.  The generator \<^verbatim>\<open>numpy.random.RandomState(seed)\<close> is the
  sequence of the numbers \<^verbatim>\<open>rand()\<close> returns for this seed, \<open>rng_draws\<close>, and the
  number of draws made so far, \<open>rng_pos\<close>.
\<close>

record FireSimulation =
  width :: int
  height :: int
  cell_size_m :: real
  rng_draws :: "nat \<Rightarrow> real"
  rng_pos :: nat
  grid :: "int \<times> int \<Rightarrow> FireCell"
  wind_model :: WindModel
  ticks :: int
  time_us :: int
  total_burned_cells :: int

definition empty_cell :: "int \<times> int \<Rightarrow> FireCell" where
  "empty_cell p =
     \<lparr> cell_x = fst p, cell_y = snd p, state = NO_FIRE, intensity = 0,
       fuel_density = FUEL_DENSITY_FACTOR, temperature_k = 293,
       ignition_time_us = 0, suppression_age_ticks = 0 \<rparr>"

definition FireSimulation_init :: "int \<Rightarrow> int \<Rightarrow> real \<Rightarrow> (nat \<Rightarrow> real) \<Rightarrow> FireSimulation" where
  "FireSimulation_init w h cs draws =
     \<lparr> width = w, height = h, cell_size_m = cs,
       rng_draws = draws, rng_pos = 0,
       grid = empty_cell,
       wind_model = WindModel_init WIND_SPEED_MS WIND_DIRECTION_DEG,
       ticks = 0, time_us = 0, total_burned_cells = 0 \<rparr>"

definition in_bounds :: "FireSimulation \<Rightarrow> int \<Rightarrow> int \<Rightarrow> bool" where
  "in_bounds s gx gy = (0 \<le> gx \<and> gx < width s \<and> 0 \<le> gy \<and> gy < height s)"

definition ignite :: "int \<Rightarrow> int \<Rightarrow> real \<Rightarrow> FireSimulation \<Rightarrow> bool \<times> FireSimulation" where
  "ignite gx gy i s =
     (if \<not> in_bounds s gx gy then (False, s)
      else let cell = grid s (gx, gy);
               cell' = cell\<lparr>state := BURNING,
                           intensity := max i FIRE_INTENSITY_IGNITION,
                           ignition_time_us := time_us s,
                           temperature_k := 500\<rparr>
           in (True, s\<lparr>grid := (grid s)((gx, gy) := cell')\<rparr>))"

definition suppress :: "int \<Rightarrow> int \<Rightarrow> real \<Rightarrow> FireSimulation \<Rightarrow> real \<times> FireSimulation" where
  "suppress gx gy strength s =
     (if \<not> in_bounds s gx gy then (0, s)
      else let cell = grid s (gx, gy);
               reduction = intensity cell * strength * SUPPRESSION_EFFECTIVENESS;
               c1 = cell\<lparr>intensity := max 0 (intensity cell - reduction),
                         suppression_age_ticks := 0\<rparr>;
               c2 = (if intensity c1 \<le> 0
                     then c1\<lparr>state := SUPPRESSED, temperature_k := 300\<rparr> else c1)
           in (reduction, s\<lparr>grid := (grid s)((gx, gy) := c2)\<rparr>))"

definition get_cell :: "FireSimulation \<Rightarrow> int \<Rightarrow> int \<Rightarrow> FireCell option" where
  "get_cell s gx gy = (if in_bounds s gx gy then Some (grid s (gx, gy)) else None)"













section \<open>Invariants used in the proofs\<close>

text \<open>The invariant of the energy bank: a battery inside its capacity.\<close>

definition battery_ok :: "EnergyManager \<Rightarrow> bool" where
  "battery_ok em \<longleftrightarrow> 0 < total_energy_wh (battery em) \<and> nominal_voltage_v (battery em) \<noteq> 0
     \<and> 0 < nominal_drain_rate (battery em)
     \<and> 0 \<le> remaining_energy_wh (battery em)
     \<and> remaining_energy_wh (battery em) \<le> total_energy_wh (battery em)"

text \<open>A generator for the examples: every draw is the same number.\<close>

definition constant_draws :: "real \<Rightarrow> nat \<Rightarrow> real" where
  "constant_draws v n = v"




section \<open>Properties of the DETM gate\<close>

text \<open>
  C10.  A drone id that was never registered with the controller: \<open>should_transmit\<close>
  answers \<open>(True, DETM_ETA0)\<close>, the default threshold 0.5, and neither it nor
  \<open>record_transmission\<close> changes the controller.
\<close>

theorem unregistered_drone_defaults:
  assumes "states c d = None"
  shows "should_transmit c d t s = ((True, DETM_ETA0), c) \<and> DETM_ETA0 = 0.5
         \<and> record_transmission c d t s = c"
  using assms by (simp add: should_transmit_def record_transmission_def DETM_ETA0_def)

theorem unregistered_drone_defaults_witness:
  "states (register_drone 1 0.5 0.1 ''L2'' DETMController_init) 2 = None
   \<and> should_transmit (register_drone 1 0.5 0.1 ''L2'' DETMController_init) 2 100 (1, 2, 3, 4, 5, 6)
       = ((True, 0.5), register_drone 1 0.5 0.1 ''L2'' DETMController_init)
   \<and> record_transmission (register_drone 1 0.5 0.1 ''L2'' DETMController_init) 2 100 (1, 2, 3, 4, 5, 6)
       = register_drone 1 0.5 0.1 ''L2'' DETMController_init"
proof -
  have h: "states (register_drone 1 0.5 0.1 ''L2'' DETMController_init) 2 = None"
    by (simp add: register_drone_def DETMController_init_def)
  from unregistered_drone_defaults [OF h, of 100 "(1, 2, 3, 4, 5, 6)"] h
  show ?thesis by (simp add: DETM_ETA0_def)
qed

section \<open>Properties of the energy bank\<close>

text \<open>
  C4.  For a drone with a registered energy manager whose battery state can be read,
  the override is \<open>(True, battery_critical)\<close> when the battery percentage is below
  20, otherwise \<open>(True, payload_empty)\<close> when the payload units are at most 0,
  otherwise \<open>(False, none)\<close>; the battery comes first when both hold.
\<close>

theorem should_rtl_cases:
  assumes "energy_mgrs d = Some em" and "battery_get_state (battery em) = Inr bs"
  shows "pe_should_rtl_override energy_mgrs d =
           Inr (if battery_percent bs < 20 then (True, ''battery_critical'')
                else if payload_units (payload em) \<le> 0 then (True, ''payload_empty'')
                else (False, ''none''))"
proof -
  from assms(2) have "critical bs = (battery_percent bs < 20)"
    by (auto simp: battery_get_state_def Let_def BATTERY_MIN_PERCENT_def split: if_splits)
  with assms show ?thesis
    by (simp add: pe_should_rtl_override_def should_rtl_override_def battery_is_critical_def
        payload_is_empty_def)
qed

theorem should_rtl_cases_witness:
  "(Map.empty(1 \<mapsto> (EnergyManager_init 5000 14.8 40)
        \<lparr>battery := charge_percent 19 (battery (EnergyManager_init 5000 14.8 40)),
         payload := snd (consume 40 (payload (EnergyManager_init 5000 14.8 40)))\<rparr>)) 1
     = Some ((EnergyManager_init 5000 14.8 40)
        \<lparr>battery := charge_percent 19 (battery (EnergyManager_init 5000 14.8 40)),
         payload := snd (consume 40 (payload (EnergyManager_init 5000 14.8 40)))\<rparr>)
   \<and> map_sum id battery_percent
        (battery_get_state (charge_percent 19 (battery (EnergyManager_init 5000 14.8 40)))) = Inr 19
   \<and> pe_should_rtl_override
        (Map.empty(1 \<mapsto> (EnergyManager_init 5000 14.8 40)
        \<lparr>battery := charge_percent 19 (battery (EnergyManager_init 5000 14.8 40)),
         payload := snd (consume 40 (payload (EnergyManager_init 5000 14.8 40)))\<rparr>)) 1
       = Inr (True, ''battery_critical'')"
proof -
  let ?em = "(EnergyManager_init 5000 14.8 40)
        \<lparr>battery := charge_percent 19 (battery (EnergyManager_init 5000 14.8 40)),
         payload := snd (consume 40 (payload (EnergyManager_init 5000 14.8 40)))\<rparr>"
  let ?bs = "\<lparr> battery_percent = 19,
       battery_mah_remaining = (remaining_energy_wh (battery ?em) / nominal_voltage_v (battery ?em)) * 1000,
       battery_energy_wh = remaining_energy_wh (battery ?em),
       voltage_v = nominal_voltage_v (battery ?em),
       time_to_empty_s = Some (remaining_energy_wh (battery ?em)
                                 / (total_energy_wh (battery ?em) * nominal_drain_rate (battery ?em))),
       critical = True, depleted = False \<rparr>"
  have h1: "(Map.empty(1 \<mapsto> ?em)) (1::int) = Some ?em" by simp
  have h2: "battery_get_state (battery ?em) = Inr ?bs"
    by (simp add: battery_get_state_def EnergyManager_init_def BatteryModel_init_def
        charge_percent_def clamp_def MAX_HOVER_TIME_S_def BATTERY_MIN_PERCENT_def Let_def)
  from should_rtl_cases [of "Map.empty(1 \<mapsto> ?em)" 1 ?em ?bs, OF h1 h2] h1 h2 show ?thesis by simp
qed

section \<open>Properties of the path-loss model\<close>

text \<open>
  C5.  For a model with a positive reference distance and a path-loss exponent that is
  not negative, the path loss is monotonically non-decreasing on the positive
  distances, and it is 0 at the reference distance.
\<close>

theorem path_loss_monotone:
  assumes "0 < reference_distance_m m" and "0 \<le> path_loss_exponent m"
    and "0 < d1" and "d1 \<le> d2"
  shows "\<exists>p1 p2. calculate_path_loss m d1 = Inr p1 \<and> calculate_path_loss m d2 = Inr p2
           \<and> p1 \<le> p2
           \<and> calculate_path_loss m (reference_distance_m m) = Inr 0"
proof -
  let ?r = "reference_distance_m m"
  have q1: "\<not> d1 / ?r \<le> 0" and q2: "\<not> d2 / ?r \<le> 0" using assms by (simp_all add: not_le)
  have p1: "0 < d1 / ?r" using assms by simp
  have le: "d1 / ?r \<le> d2 / ?r" using assms by (simp add: divide_right_mono)
  have "log 10 (d1 / ?r) \<le> log 10 (d2 / ?r)" using p1 le by simp
  then have "10 * path_loss_exponent m * log 10 (d1 / ?r)
               \<le> 10 * path_loss_exponent m * log 10 (d2 / ?r)"
    using assms(2) by (simp add: mult_left_mono)
  moreover have "calculate_path_loss m d1 = Inr (10 * path_loss_exponent m * log 10 (d1 / ?r))"
    unfolding calculate_path_loss_def using assms q1 by simp
  moreover have "calculate_path_loss m d2 = Inr (10 * path_loss_exponent m * log 10 (d2 / ?r))"
    unfolding calculate_path_loss_def using assms q2 by simp
  moreover have "calculate_path_loss m ?r = Inr 0"
    unfolding calculate_path_loss_def using assms by simp
  ultimately show ?thesis by simp
qed

theorem path_loss_monotone_witness:
  "0 < reference_distance_m PathLossModel_default
   \<and> 0 \<le> path_loss_exponent PathLossModel_default \<and> (0::real) < 1 \<and> (1::real) \<le> 10
   \<and> calculate_path_loss PathLossModel_default 1 = Inr 0
   \<and> calculate_path_loss PathLossModel_default 10 = Inr 30
   \<and> (\<exists>p1 p2. calculate_path_loss PathLossModel_default 1 = Inr p1
         \<and> calculate_path_loss PathLossModel_default 10 = Inr p2 \<and> p1 \<le> p2
         \<and> calculate_path_loss PathLossModel_default
              (reference_distance_m PathLossModel_default) = Inr 0)"
proof -
  have h1: "0 < reference_distance_m PathLossModel_default"
    and h2: "0 \<le> path_loss_exponent PathLossModel_default"
    by (simp_all add: PathLossModel_default_def REFERENCE_DISTANCE_M_def PATH_LOSS_EXPONENT_def)
  have h3: "(0::real) < 1" and h4: "(1::real) \<le> 10" by simp_all
  have e1: "calculate_path_loss PathLossModel_default 1 = Inr 0"
    and e2: "calculate_path_loss PathLossModel_default 10 = Inr 30"
    by (simp_all add: calculate_path_loss_def PathLossModel_default_def
        REFERENCE_DISTANCE_M_def PATH_LOSS_EXPONENT_def)
  from path_loss_monotone [OF h1 h2 h3 h4] h1 h2 e1 e2 show ?thesis by simp
qed

section \<open>More properties of the energy bank\<close>

lemma apply_energy_op_fixed:
  "total_energy_wh (battery (apply_energy_op c em)) = total_energy_wh (battery em)
   \<and> nominal_voltage_v (battery (apply_energy_op c em)) = nominal_voltage_v (battery em)
   \<and> nominal_drain_rate (battery (apply_energy_op c em)) = nominal_drain_rate (battery em)
   \<and> max_payload_units (payload (apply_energy_op c em)) = max_payload_units (payload em)"
  by (cases c)
     (simp_all add: drain_flight_def drain_hover_def drain_custom_def charge_def
        charge_percent_def dock_def refill_def update_suppression_def consume_def Let_def)

lemma drain_amount_nonneg:
  "0 \<le> d \<Longrightarrow> 0 \<le> a \<Longrightarrow> 0 \<le> d * ENERGY_DRAIN_PER_METER * a"
  "0 \<le> t \<Longrightarrow> 0 \<le> t * ENERGY_DRAIN_HOVER_PER_SEC"
  by (simp_all add: ENERGY_DRAIN_PER_METER_def ENERGY_DRAIN_HOVER_PER_SEC_def)

lemma apply_energy_op_ok:
  assumes "battery_ok em" and "energy_op_ok c"
  shows "battery_ok (apply_energy_op c em)"
proof (cases c)
  case (DrainFlight d a)
  with assms drain_amount_nonneg(1) [of d a] show ?thesis
    by (auto simp: battery_ok_def drain_flight_def Let_def max_def)
next
  case (DrainHover t)
  with assms drain_amount_nonneg(2) [of t] show ?thesis
    by (auto simp: battery_ok_def drain_hover_def Let_def max_def)
next
  case (DrainCustom e)
  with assms show ?thesis
    by (auto simp: battery_ok_def drain_custom_def Let_def min_def)
next
  case (Charge e)
  with assms show ?thesis
    by (auto simp: battery_ok_def charge_def Let_def min_def)
next
  case (ChargePercent p)
  with assms show ?thesis
    by (auto simp: battery_ok_def charge_percent_def clamp_def min_def max_def)
next
  case (Suppression k)
  with assms show ?thesis
    by (simp add: battery_ok_def update_suppression_def consume_def)
next
  case Dock
  with assms show ?thesis
    by (auto simp: battery_ok_def dock_def charge_percent_def clamp_def min_def max_def)
qed

lemma run_energy_ops_ok:
  "battery_ok em \<Longrightarrow> \<forall>c \<in> set cs. energy_op_ok c \<Longrightarrow> battery_ok (run_energy_ops cs em)"
  by (induction cs arbitrary: em) (simp_all add: apply_energy_op_ok)

lemma run_energy_ops_fixed:
  "total_energy_wh (battery (run_energy_ops cs em)) = total_energy_wh (battery em)
   \<and> max_payload_units (payload (run_energy_ops cs em)) = max_payload_units (payload em)"
  by (induction cs arbitrary: em) (simp_all add: apply_energy_op_fixed)

lemma init_ok: "0 < cap \<Longrightarrow> 0 < v \<Longrightarrow> battery_ok (EnergyManager_init cap v m)"
  by (simp add: battery_ok_def EnergyManager_init_def BatteryModel_init_def MAX_HOVER_TIME_S_def)

lemma drain_decreases:
  assumes "energy_op_ok c" and "is_drain c"
  shows "remaining_energy_wh (battery (apply_energy_op c em)) \<le> remaining_energy_wh (battery em)
         \<or> remaining_energy_wh (battery em) < 0"
proof (cases c)
  case (DrainFlight d a)
  with assms drain_amount_nonneg(1) [of d a] show ?thesis
    by (auto simp: drain_flight_def Let_def max_def)
next
  case (DrainHover t)
  with assms drain_amount_nonneg(2) [of t] show ?thesis
    by (auto simp: drain_hover_def Let_def max_def)
qed (use assms in simp_all)

lemma dock_full:
  assumes "battery_ok em"
  shows "map_sum id battery_percent (battery_get_state (battery (dock em))) = Inr 100
         \<and> payload_units (payload (dock em)) = max_payload_units (payload em)
         \<and> remaining_energy_wh (battery (dock em)) = total_energy_wh (battery em)"
  using assms
  by (simp add: battery_ok_def dock_def charge_percent_def refill_def battery_get_state_def
      clamp_def Let_def)

text \<open>
  C6.  From a battery built with a positive capacity and voltage, after any sequence
  of operations with non-negative amounts: the remaining energy is between 0 and the
  total capacity; a further \<open>drain_flight\<close> or \<open>drain_hover\<close> with non-negative
  arguments does not increase it; and \<open>dock\<close> brings the battery percentage to 100
  and the payload units to the maximum.
\<close>

theorem battery_within_capacity:
  assumes "0 < cap" and "0 < v" and "\<forall>c \<in> set cs. energy_op_ok c"
  shows "0 \<le> remaining_energy_wh (battery (run_energy_ops cs (EnergyManager_init cap v m)))
       \<and> remaining_energy_wh (battery (run_energy_ops cs (EnergyManager_init cap v m)))
           \<le> total_energy_wh (battery (EnergyManager_init cap v m))
       \<and> (energy_op_ok c \<and> is_drain c \<longrightarrow>
            remaining_energy_wh
              (battery (apply_energy_op c (run_energy_ops cs (EnergyManager_init cap v m))))
            \<le> remaining_energy_wh (battery (run_energy_ops cs (EnergyManager_init cap v m))))
       \<and> map_sum id battery_percent
            (battery_get_state
               (battery (dock (run_energy_ops cs (EnergyManager_init cap v m))))) = Inr 100
       \<and> payload_units (payload (dock (run_energy_ops cs (EnergyManager_init cap v m)))) = m"
proof -
  let ?em = "run_energy_ops cs (EnergyManager_init cap v m)"
  have ok: "battery_ok ?em" using assms by (simp add: run_energy_ops_ok init_ok)
  have fx: "total_energy_wh (battery ?em) = total_energy_wh (battery (EnergyManager_init cap v m))"
    "max_payload_units (payload ?em) = m"
    by (simp_all add: run_energy_ops_fixed) (simp add: EnergyManager_init_def PayloadModel_init_def)
  have b: "0 \<le> remaining_energy_wh (battery ?em)"
    "remaining_energy_wh (battery ?em) \<le> total_energy_wh (battery ?em)"
    using ok by (simp_all add: battery_ok_def)
  have d: "energy_op_ok c \<and> is_drain c \<longrightarrow>
            remaining_energy_wh (battery (apply_energy_op c ?em))
            \<le> remaining_energy_wh (battery ?em)"
    using drain_decreases [of c ?em] b by auto
  from dock_full [OF ok] b d fx show ?thesis by simp
qed

theorem battery_within_capacity_witness:
  "(0::real) < 5000 \<and> (0::real) < 14.8
   \<and> energy_op_ok (DrainFlight 100 1) \<and> energy_op_ok (DrainHover 60)
   \<and> energy_op_ok (Suppression 1)
   \<and> energy_op_ok (DrainFlight 2000 1) \<and> is_drain (DrainFlight 2000 1)
   \<and> remaining_energy_wh (battery (run_energy_ops [DrainFlight 100 1, DrainHover 60, Suppression 1]
        (EnergyManager_init 5000 14.8 40))) = 65.994
   \<and> remaining_energy_wh (battery (apply_energy_op (DrainFlight 2000 1)
        (run_energy_ops [DrainFlight 100 1, DrainHover 60, Suppression 1]
           (EnergyManager_init 5000 14.8 40)))) = 0
   \<and> payload_units (payload (run_energy_ops [DrainFlight 100 1, DrainHover 60, Suppression 1]
        (EnergyManager_init 5000 14.8 40))) = 39
   \<and> payload_units (payload (dock (run_energy_ops [DrainFlight 100 1, DrainHover 60, Suppression 1]
        (EnergyManager_init 5000 14.8 40)))) = 40
   \<and> map_sum id battery_percent (battery_get_state (battery (dock
        (run_energy_ops [DrainFlight 100 1, DrainHover 60, Suppression 1]
           (EnergyManager_init 5000 14.8 40))))) = Inr 100"
proof -
  have h1: "(0::real) < 5000" and h2: "(0::real) < 14.8" by simp_all
  have h3: "\<forall>c \<in> set [DrainFlight 100 1, DrainHover 60, Suppression 1]. energy_op_ok c" by simp
  have e: "remaining_energy_wh (battery (run_energy_ops [DrainFlight 100 1, DrainHover 60, Suppression 1]
        (EnergyManager_init 5000 14.8 40))) = 65.994"
    "remaining_energy_wh (battery (apply_energy_op (DrainFlight 2000 1)
        (run_energy_ops [DrainFlight 100 1, DrainHover 60, Suppression 1]
           (EnergyManager_init 5000 14.8 40)))) = 0"
    "payload_units (payload (run_energy_ops [DrainFlight 100 1, DrainHover 60, Suppression 1]
        (EnergyManager_init 5000 14.8 40))) = 39"
    by (simp_all add: EnergyManager_init_def BatteryModel_init_def PayloadModel_init_def
        drain_flight_def drain_hover_def update_suppression_def consume_def Let_def
        ENERGY_DRAIN_PER_METER_def ENERGY_DRAIN_HOVER_PER_SEC_def
        PAYLOAD_DRAIN_PER_SUPPRESSION_def)
  from battery_within_capacity [OF h1 h2 h3, where c = "DrainFlight 2000 1" and m = 40] e h3
  show ?thesis by simp
qed

section \<open>More properties of the DETM gate\<close>

lemma min_eta_pos: "0 \<le> DETM_MIN_ETA"
  by (simp add: DETM_MIN_ETA_def)

lemma err_l2_tuple:
  "calculate_error_l2 (c1, c2, c3, c4, c5, c6) (l1, l2, l3, l4, l5, l6) =
     sqrt ((c1 - l1)\<^sup>2 + (c2 - l2)\<^sup>2 + (c3 - l3)\<^sup>2
           + (c4 - l4)\<^sup>2 + (c5 - l5)\<^sup>2 + (c6 - l6)\<^sup>2)"
  by (simp only: calculate_error_l2_def prod.case)

lemma err_linf_tuple:
  "calculate_error_linf (c1, c2, c3, c4, c5, c6) (l1, l2, l3, l4, l5, l6) =
     Max {\<bar>c1 - l1\<bar>, \<bar>c2 - l2\<bar>, \<bar>c3 - l3\<bar>, \<bar>c4 - l4\<bar>, \<bar>c5 - l5\<bar>, \<bar>c6 - l6\<bar>}"
  by (simp only: calculate_error_linf_def prod.case)

lemma error_of_same_state:
  "calculate_error_l2 s s = 0 \<and> calculate_error_linf s s = 0"
proof -
  obtain a b c d e f where s: "s = (a, b, c, d, e, f)" by (rule prod_cases6)
  have "calculate_error_l2 (a, b, c, d, e, f) (a, b, c, d, e, f) = 0"
    by (simp only: err_l2_tuple) simp
  moreover have "calculate_error_linf (a, b, c, d, e, f) (a, b, c, d, e, f) = 0"
    by (simp only: err_linf_tuple) simp
  ultimately show ?thesis by (simp only: s) 
qed

lemma should_transmit_fst:
  assumes "states c d = Some st"
  shows "fst (should_transmit c d t s) =
     ((if norm_type st = ''l2'' then calculate_error_l2 s (last_transmitted_state st)
       else calculate_error_linf s (last_transmitted_state st))
      > max DETM_MIN_ETA (eta0 st * exp (- lambda_decay st
                   * (real_of_int (t - last_transmitted_time_us st) / 1000000))),
      max DETM_MIN_ETA (eta0 st * exp (- lambda_decay st
                   * (real_of_int (t - last_transmitted_time_us st) / 1000000))))"
  using assms by (simp add: should_transmit_def Let_def max.commute)

text \<open>
  C3.  For a registered drone, \<open>should_transmit\<close> computes the threshold
  \<open>eta = max (DETM_MIN_ETA, eta0 * exp (- lambda * (t - t_last) / 1e6))\<close>, returns it,
  and answers true exactly when the norm of the difference between the queried 6-tuple
  and the last transmitted one, the L2 norm for the norm type \<open>l2\<close> and the maximum
  norm otherwise, is greater than \<open>eta\<close>.  A query equal to the last transmitted
  state is never answered true, at any time.
\<close>

theorem should_transmit_registered:
  assumes "states c d = Some st"
    and "last_transmitted_state st = (l1, l2, l3, l4, l5, l6)"
  shows "fst (should_transmit c d t (c1, c2, c3, c4, c5, c6)) =
           ((if norm_type st = ''l2''
             then sqrt ((c1 - l1)\<^sup>2 + (c2 - l2)\<^sup>2 + (c3 - l3)\<^sup>2
                        + (c4 - l4)\<^sup>2 + (c5 - l5)\<^sup>2 + (c6 - l6)\<^sup>2)
             else Max {\<bar>c1 - l1\<bar>, \<bar>c2 - l2\<bar>, \<bar>c3 - l3\<bar>, \<bar>c4 - l4\<bar>, \<bar>c5 - l5\<bar>, \<bar>c6 - l6\<bar>})
            > max DETM_MIN_ETA
                (eta0 st * exp (- lambda_decay st
                   * (real_of_int (t - last_transmitted_time_us st) / 1000000))),
            max DETM_MIN_ETA
                (eta0 st * exp (- lambda_decay st
                   * (real_of_int (t - last_transmitted_time_us st) / 1000000))))
         \<and> \<not> fst (fst (should_transmit c d t (last_transmitted_state st)))"
proof -
  have "0 \<le> max DETM_MIN_ETA (eta0 st * exp (- lambda_decay st
                   * (real_of_int (t - last_transmitted_time_us st) / 1000000)))"
    using min_eta_pos by (rule max.coboundedI1)
  then have "\<not> fst (fst (should_transmit c d t (last_transmitted_state st)))"
    by (simp only: should_transmit_fst [OF assms(1)] error_of_same_state fst_conv if_cancel
        not_less)
  then show ?thesis
    by (simp only: should_transmit_fst [OF assms(1)] assms(2) err_l2_tuple err_linf_tuple
        simp_thms)
qed

theorem should_transmit_registered_witness:
  "states (record_transmission (register_drone 1 0.5 0.1 ''L2'' DETMController_init)
             1 0 (10, 20, 30, 0, 0, 0)) 1
     = Some \<lparr> drone_id = 1, eta0 = 0.5, lambda_decay = 0.1, norm_type = ''l2'',
          last_transmitted_state = (10, 20, 30, 0, 0, 0),
          last_transmitted_time_us = 0,
          current_eta = 0.5, eta_age_ticks = 0,
          transmissions_total = 1, triggers_fired = 0, triggers_suppressed = 0 \<rparr>
   \<and> \<not> fst (fst (should_transmit
            (record_transmission (register_drone 1 0.5 0.1 ''L2'' DETMController_init)
               1 0 (10, 20, 30, 0, 0, 0)) 1 100000 (10, 20, 30, 0, 0, 0)))
   \<and> snd (fst (should_transmit
            (record_transmission (register_drone 1 0.5 0.1 ''L2'' DETMController_init)
               1 0 (10, 20, 30, 0, 0, 0)) 1 100000 (13, 24, 30, 0, 0, 0)))
       = max 0.01 (0.5 * exp (- 0.01))"
proof -
  let ?c = "record_transmission (register_drone 1 0.5 0.1 ''L2'' DETMController_init)
             1 0 (10, 20, 30, 0, 0, 0)"
  let ?st = "\<lparr> drone_id = 1, eta0 = 0.5, lambda_decay = 0.1, norm_type = ''l2'',
          last_transmitted_state = (10, 20, 30, 0, 0, 0),
          last_transmitted_time_us = 0,
          current_eta = 0.5, eta_age_ticks = 0,
          transmissions_total = 1, triggers_fired = 0, triggers_suppressed = 0 \<rparr>"
  have lw: "lower ''L2'' = ''l2''" by code_simp
  have h1: "states ?c 1 = Some ?st"
    by (simp add: record_transmission_def register_drone_def DETMController_init_def lw)
  have h2: "last_transmitted_state ?st = (10, 20, 30, 0, 0, 0)" by simp
  note w = should_transmit_registered [OF h1 h2, of 100000 13 24 30 0 0 0]
  have a: "\<not> fst (fst (should_transmit ?c 1 100000 (10, 20, 30, 0, 0, 0)))"
    using w [THEN conjunct2] unfolding h2 .
  have b: "snd (fst (should_transmit ?c 1 100000 (13, 24, 30, 0, 0, 0)))
             = max 0.01 (0.5 * exp (- 0.01))"
    using arg_cong [OF w [THEN conjunct1], of snd] by (simp add: DETM_MIN_ETA_def)
  from h1 a b show ?thesis by (simp only: simp_thms)
qed

section \<open>Properties of the fire grid\<close>

text \<open>
  C7.  On a cell inside the grid, \<open>suppress\<close> returns the reduction
  \<open>intensity * strength * SUPPRESSION_EFFECTIVENESS\<close>, lowers the intensity of the
  cell by it, not below 0, and sets its suppression age to 0; when the new intensity
  is 0 the cell is \<open>SUPPRESSED\<close> at 300 K, otherwise its state and temperature are
  kept; no other cell changes.  Outside the grid it returns 0 and changes nothing.
\<close>

theorem suppress_effect:
  "(in_bounds s gx gy \<longrightarrow>
      fst (suppress gx gy k s) = intensity (grid s (gx, gy)) * k * SUPPRESSION_EFFECTIVENESS
    \<and> intensity (grid (snd (suppress gx gy k s)) (gx, gy))
        = max 0 (intensity (grid s (gx, gy)) - fst (suppress gx gy k s))
    \<and> suppression_age_ticks (grid (snd (suppress gx gy k s)) (gx, gy)) = 0
    \<and> (intensity (grid (snd (suppress gx gy k s)) (gx, gy)) = 0 \<longrightarrow>
          state (grid (snd (suppress gx gy k s)) (gx, gy)) = SUPPRESSED
        \<and> temperature_k (grid (snd (suppress gx gy k s)) (gx, gy)) = 300)
    \<and> (intensity (grid (snd (suppress gx gy k s)) (gx, gy)) \<noteq> 0 \<longrightarrow>
          state (grid (snd (suppress gx gy k s)) (gx, gy)) = state (grid s (gx, gy))
        \<and> temperature_k (grid (snd (suppress gx gy k s)) (gx, gy))
            = temperature_k (grid s (gx, gy)))
    \<and> (\<forall>q. q \<noteq> (gx, gy) \<longrightarrow> grid (snd (suppress gx gy k s)) q = grid s q))
   \<and> (\<not> in_bounds s gx gy \<longrightarrow> suppress gx gy k s = (0, s))"
  by (simp add: suppress_def Let_def max_def)

lemma init_in_bounds:
  "in_bounds (snd (ignite a b i (FireSimulation_init w h cs dr))) gx gy
     = (0 \<le> gx \<and> gx < w \<and> 0 \<le> gy \<and> gy < h)"
  by (simp add: in_bounds_def ignite_def FireSimulation_init_def Let_def)

theorem suppress_effect_witness:
  "in_bounds (snd (ignite 50 50 1 (FireSimulation_init 100 100 10 (constant_draws 0)))) 50 50
   \<and> \<not> in_bounds (snd (ignite 50 50 1 (FireSimulation_init 100 100 10 (constant_draws 0)))) 100 50
   \<and> fst (suppress 50 50 0.8 (snd (ignite 50 50 1 (FireSimulation_init 100 100 10 (constant_draws 0))))) = 0.72
   \<and> intensity (grid (snd (suppress 50 50 0.8
        (snd (ignite 50 50 1 (FireSimulation_init 100 100 10 (constant_draws 0)))))) (50, 50)) = 0.28
   \<and> state (grid (snd (suppress 50 50 0.8
        (snd (ignite 50 50 1 (FireSimulation_init 100 100 10 (constant_draws 0)))))) (50, 50)) = BURNING
   \<and> suppress 100 50 0.8 (snd (ignite 50 50 1 (FireSimulation_init 100 100 10 (constant_draws 0))))
       = (0, snd (ignite 50 50 1 (FireSimulation_init 100 100 10 (constant_draws 0))))"
proof -
  let ?s = "snd (ignite 50 50 1 (FireSimulation_init 100 100 10 (constant_draws 0)))"
  have h1: "in_bounds ?s 50 50" and h2: "\<not> in_bounds ?s 100 50"
    by (simp_all add: init_in_bounds)
  have c: "intensity (grid ?s (50, 50)) = 1" "state (grid ?s (50, 50)) = BURNING"
    by (simp_all add: ignite_def FireSimulation_init_def in_bounds_def Let_def
        FIRE_INTENSITY_IGNITION_def)
  from suppress_effect [of ?s 50 50 "0.8"] h1 c
  have a: "fst (suppress 50 50 0.8 ?s) = 0.72"
    "intensity (grid (snd (suppress 50 50 0.8 ?s)) (50, 50)) = 0.28"
    "state (grid (snd (suppress 50 50 0.8 ?s)) (50, 50)) = BURNING"
    by (simp_all add: SUPPRESSION_EFFECTIVENESS_def)
  from suppress_effect [of ?s 100 50 "0.8"] h2
  have b: "suppress 100 50 0.8 ?s = (0, ?s)" by simp
  from h1 h2 a b show ?thesis by simp
qed

section \<open>Properties of the observer\<close>

lemma map_of_dict_update:
  "map_of (dict_update k v xs) k' = (if k' = k then Some v else map_of xs k')"
  by (induction xs) auto

lemma dict_update_fresh:
  "map_of xs k = None \<Longrightarrow> dict_update k v xs = xs @ [(k, v)]"
  by (induction xs) (auto split: if_splits)

lemma age_estimate_fields:
  "estimate_age_ticks (age_estimate observer e) = estimate_age_ticks e + 1"
  "estimate_confidence (age_estimate observer e)
     = 1 - 0.8 * min (real_of_int (estimate_age_ticks e + 1) / 100) 1"
  by (simp_all add: age_estimate_def Let_def)

lemma predict_known:
  assumes "local_states ob oid = Some observer" and "map_of (neighbors observer) n = Some e"
  shows "\<exists>px py pz observer' e'.
           fst (predict_neighbor_state ob oid n t)
             = Some (px, py, pz,
                     1 - 0.8 * min (real_of_int (estimate_age_ticks e + 1) / 100) 1)
         \<and> local_states (snd (predict_neighbor_state ob oid n t)) oid = Some observer'
         \<and> map_of (neighbors observer') n = Some e'
         \<and> estimate_age_ticks e' = estimate_age_ticks e + 1"
  using assms
  by (simp add: predict_neighbor_state_def Let_def map_of_dict_update age_estimate_fields)

lemma predict_calls_confidences:
  assumes "local_states ob oid = Some observer" and "map_of (neighbors observer) n = Some e"
  shows "fst (predict_calls ob oid n ts) =
           map (\<lambda>k. Some (1 - 0.8 * min (real_of_int (estimate_age_ticks e + int k + 1) / 100) 1))
             [0..<length ts]"
  using assms
proof (induction ts arbitrary: ob observer e)
  case Nil
  show ?case by simp
next
  case (Cons t ts)
  from predict_known [OF Cons.prems, of t]
  obtain px py pz observer' e' where
    r: "fst (predict_neighbor_state ob oid n t)
          = Some (px, py, pz, 1 - 0.8 * min (real_of_int (estimate_age_ticks e + 1) / 100) 1)"
    and l: "local_states (snd (predict_neighbor_state ob oid n t)) oid = Some observer'"
    and m: "map_of (neighbors observer') n = Some e'"
    and a: "estimate_age_ticks e' = estimate_age_ticks e + 1"
    by blast
  have ih: "fst (predict_calls (snd (predict_neighbor_state ob oid n t)) oid n ts) =
           map (\<lambda>k. Some (1 - 0.8 * min (real_of_int (estimate_age_ticks e' + int k + 1) / 100) 1))
             [0..<length ts]"
    by (rule Cons.IH [OF l m])
  have sh: "map (\<lambda>k. Some (1 - 0.8 * min (real_of_int (estimate_age_ticks e + int k + 1) / 100) 1))
              [0..<length (t # ts)]
            = Some (1 - 0.8 * min (real_of_int (estimate_age_ticks e + 1) / 100) 1)
              # map (\<lambda>k. Some (1 - 0.8 * min (real_of_int (estimate_age_ticks e' + int k + 1) / 100) 1))
                  [0..<length ts]"
    by (simp add: map_upt_Suc a algebra_simps del: upt_Suc)
  show ?case
    using r ih unfolding sh
    by (cases "predict_neighbor_state ob oid n t";
        cases "predict_calls (snd (predict_neighbor_state ob oid n t)) oid n ts") simp
qed

text \<open>
  C8.  For an observer and a neighbour it knows, each \<open>predict_neighbor_state\<close>
  call increments the age of the estimate by one tick and returns the confidence
  \<open>1 - 0.8 * min (age / 100, 1)\<close> of the new age; over successive calls with no
  \<open>update_neighbor\<close> between them, at any times, the confidences returned are
  non-increasing.
\<close>

theorem predict_confidence_non_increasing:
  assumes "local_states ob oid = Some observer" and "map_of (neighbors observer) n = Some e"
  shows "(\<exists>px py pz observer' e'.
            fst (predict_neighbor_state ob oid n t)
              = Some (px, py, pz,
                      1 - 0.8 * min (real_of_int (estimate_age_ticks e + 1) / 100) 1)
          \<and> local_states (snd (predict_neighbor_state ob oid n t)) oid = Some observer'
          \<and> map_of (neighbors observer') n = Some e'
          \<and> estimate_age_ticks e' = estimate_age_ticks e + 1)
       \<and> length (fst (predict_calls ob oid n ts)) = length ts
       \<and> (\<forall>i j. i \<le> j \<and> j < length ts \<longrightarrow>
            (\<exists>ci cj. fst (predict_calls ob oid n ts) ! i = Some ci
                   \<and> fst (predict_calls ob oid n ts) ! j = Some cj \<and> cj \<le> ci))"
proof -
  note pc = predict_calls_confidences [OF assms, of ts]
  have len: "length (fst (predict_calls ob oid n ts)) = length ts"
    by (simp add: pc)
  have mono: "\<forall>i j. i \<le> j \<and> j < length ts \<longrightarrow>
            (\<exists>ci cj. fst (predict_calls ob oid n ts) ! i = Some ci
                   \<and> fst (predict_calls ob oid n ts) ! j = Some cj \<and> cj \<le> ci)"
  proof (intro allI impI)
    fix i j :: nat
    assume ij: "i \<le> j \<and> j < length ts"
    then have "real_of_int (estimate_age_ticks e + int i + 1) / 100
                 \<le> real_of_int (estimate_age_ticks e + int j + 1) / 100"
      by simp
    then have "min (real_of_int (estimate_age_ticks e + int i + 1) / 100) 1
                 \<le> min (real_of_int (estimate_age_ticks e + int j + 1) / 100) (1::real)"
      by (rule min.mono) simp
    then have "1 - 0.8 * min (real_of_int (estimate_age_ticks e + int j + 1) / 100) 1
                 \<le> 1 - 0.8 * min (real_of_int (estimate_age_ticks e + int i + 1) / 100) (1::real)"
      by simp
    with ij show "\<exists>ci cj. fst (predict_calls ob oid n ts) ! i = Some ci
                   \<and> fst (predict_calls ob oid n ts) ! j = Some cj \<and> cj \<le> ci"
      by (simp add: pc)
  qed
  from predict_known [OF assms, of t] len mono show ?thesis by blast
qed

theorem predict_confidence_non_increasing_witness:
  "local_states (update_neighbor
       (observer_register_drone (DistributedObserver_init 500 200 0.95) 1 [2])
       1 2 0 (5, 0, 0, 1, 0, 0)) 1
     = Some \<lparr> observer_drone_id = 1, max_latency_ticks = 50,
              constant_velocity_timeout_ticks = 20, confidence_decay_rate = 0.95,
              neighbors = [(2, \<lparr> neighbor_id = 2,
                 estimated_x = 5, estimated_y = 0, estimated_z = 0,
                 estimated_vx = 1, estimated_vy = 0, estimated_vz = 0,
                 estimate_time_us = 0, estimate_age_ticks = 0,
                 estimate_confidence = 1, velocity_model_stale = False \<rparr>)] \<rparr>
   \<and> fst (predict_calls (update_neighbor
       (observer_register_drone (DistributedObserver_init 500 200 0.95) 1 [2])
       1 2 0 (5, 0, 0, 1, 0, 0)) 1 2 [10000, 20000]) = [Some 0.992, Some 0.984]
   \<and> (\<exists>ci cj. fst (predict_calls (update_neighbor
         (observer_register_drone (DistributedObserver_init 500 200 0.95) 1 [2])
         1 2 0 (5, 0, 0, 1, 0, 0)) 1 2 [10000, 20000]) ! 0 = Some ci
       \<and> fst (predict_calls (update_neighbor
         (observer_register_drone (DistributedObserver_init 500 200 0.95) 1 [2])
         1 2 0 (5, 0, 0, 1, 0, 0)) 1 2 [10000, 20000]) ! 1 = Some cj \<and> cj \<le> ci)"
proof -
  let ?ob = "update_neighbor
       (observer_register_drone (DistributedObserver_init 500 200 0.95) 1 [2])
       1 2 0 (5, 0, 0, 1, 0, 0)"
  let ?e = "\<lparr> neighbor_id = 2,
                 estimated_x = 5, estimated_y = 0, estimated_z = 0,
                 estimated_vx = 1, estimated_vy = 0, estimated_vz = 0,
                 estimate_time_us = 0, estimate_age_ticks = 0,
                 estimate_confidence = 1, velocity_model_stale = False \<rparr>"
  let ?o = "\<lparr> observer_drone_id = 1, max_latency_ticks = 50,
              constant_velocity_timeout_ticks = 20, confidence_decay_rate = 0.95,
              neighbors = [(2, ?e)] \<rparr>"
  have h1: "local_states ?ob 1 = Some ?o"
    by (simp add: update_neighbor_def observer_register_drone_def DistributedObserver_init_def
        fresh_estimate_def py_int_def)
  have h2: "map_of (neighbors ?o) 2 = Some ?e" by simp
  note w = predict_confidence_non_increasing [OF h1 h2, of 0 "[10000, 20000]"]
  have v: "fst (predict_calls ?ob 1 2 [10000, 20000]) = [Some 0.992, Some 0.984]"
    using predict_calls_confidences [OF h1 h2, of "[10000, 20000]"]
    by (simp add: upt_conv_Cons)
  from w have "0 \<le> (1::nat) \<and> (1::nat) < length [10000, 20000 :: int] \<longrightarrow>
      (\<exists>ci cj. fst (predict_calls ?ob 1 2 [10000, 20000]) ! 0 = Some ci
              \<and> fst (predict_calls ?ob 1 2 [10000, 20000]) ! 1 = Some cj \<and> cj \<le> ci)"
    by blast
  with h1 v show ?thesis by simp
qed

section \<open>Invalid arguments\<close>

text \<open>
  C9, as the claim states it, fails for \<open>update_neighbor\<close>: on a registered
  observer that does not know the neighbour id it inserts the neighbour, so the
  observer is not the one before the call.
\<close>

theorem update_neighbor_unknown_neighbor_counterexample:
  "map_of (neighbors (the (local_states
       (observer_register_drone (DistributedObserver_init 500 200 0.95) 1 []) 1))) 2 = None
   \<and> update_neighbor (observer_register_drone (DistributedObserver_init 500 200 0.95) 1 [])
         1 2 0 (5, 0, 0, 0, 0, 0)
       \<noteq> observer_register_drone (DistributedObserver_init 500 200 0.95) 1 []"
proof -
  let ?ob = "observer_register_drone (DistributedObserver_init 500 200 0.95) 1 []"
  have a: "map fst (neighbors (the (local_states ?ob 1))) = []"
    by (simp add: observer_register_drone_def)
  have b: "map fst (neighbors (the (local_states
             (update_neighbor ?ob 1 2 0 (5, 0, 0, 0, 0, 0)) 1))) = [2]"
    by (simp add: observer_register_drone_def update_neighbor_def)
  have "update_neighbor ?ob 1 2 0 (5, 0, 0, 0, 0, 0) \<noteq> ?ob"
  proof
    assume "update_neighbor ?ob 1 2 0 (5, 0, 0, 0, 0, 0) = ?ob"
    with a b show False by simp
  qed
  moreover have "map_of (neighbors (the (local_states ?ob 1))) 2 = None"
    by (simp add: observer_register_drone_def)
  ultimately show ?thesis by simp
qed

text \<open>
  C9, amended.  Outside the grid, \<open>ignite\<close> returns false, \<open>suppress\<close> returns 0
  and \<open>get_cell\<close> returns \<open>None\<close>, the simulation unchanged.  On an unknown
  observer id, \<open>predict_neighbor_state\<close> and \<open>get_separation_to_neighbor\<close> return
  \<open>None\<close>, \<open>check_collision_risk\<close> returns the empty list and \<open>update_neighbor\<close>
  does nothing, the observer unchanged.  On a known observer and an unknown neighbour
  id, the prediction and the separation are \<open>None\<close> and the observer is unchanged,
  while \<open>update_neighbor\<close> appends the neighbour to the observer's table with
  confidence 1.
\<close>

theorem invalid_arguments_total:
  "(\<not> in_bounds s gx gy \<longrightarrow>
       ignite gx gy i s = (False, s) \<and> suppress gx gy k s = (0, s) \<and> get_cell s gx gy = None)
   \<and> (local_states ob oid = None \<longrightarrow>
         predict_neighbor_state ob oid n t = (None, ob)
       \<and> get_separation_to_neighbor ob oid n t pos = (None, ob)
       \<and> check_collision_risk ob oid t pos m = ([], ob)
       \<and> update_neighbor ob oid n t st = ob)
   \<and> (local_states ob oid = Some observer \<and> map_of (neighbors observer) n = None \<longrightarrow>
         predict_neighbor_state ob oid n t = (None, ob)
       \<and> get_separation_to_neighbor ob oid n t pos = (None, ob)
       \<and> update_neighbor ob oid n t (px, py, pz, vx, vy, vz) =
           ob\<lparr>local_states := (local_states ob)(oid \<mapsto>
              observer\<lparr>neighbors := neighbors observer @
                [(n, \<lparr> neighbor_id = n,
                        estimated_x = px, estimated_y = py, estimated_z = pz,
                        estimated_vx = vx, estimated_vy = vy, estimated_vz = vz,
                        estimate_time_us = t, estimate_age_ticks = 0,
                        estimate_confidence = 1, velocity_model_stale = False \<rparr>)]\<rparr>)\<rparr>)"
  by (simp add: ignite_def suppress_def get_cell_def predict_neighbor_state_def
      get_separation_to_neighbor_def check_collision_risk_def update_neighbor_def
      dict_update_fresh)

theorem invalid_arguments_total_witness:
  "\<not> in_bounds (FireSimulation_init 100 100 10 (constant_draws 0)) (-1) 5
   \<and> ignite (-1) 5 1 (FireSimulation_init 100 100 10 (constant_draws 0))
       = (False, FireSimulation_init 100 100 10 (constant_draws 0))
   \<and> get_cell (FireSimulation_init 100 100 10 (constant_draws 0)) (-1) 5 = None
   \<and> local_states (observer_register_drone (DistributedObserver_init 500 200 0.95) 1 [2]) 7
       = None
   \<and> check_collision_risk (observer_register_drone (DistributedObserver_init 500 200 0.95) 1 [2])
         7 0 (0, 0, 0) 10
       = ([], observer_register_drone (DistributedObserver_init 500 200 0.95) 1 [2])
   \<and> local_states (observer_register_drone (DistributedObserver_init 500 200 0.95) 1 [2]) 1
       = Some \<lparr> observer_drone_id = 1, max_latency_ticks = 50,
              constant_velocity_timeout_ticks = 20, confidence_decay_rate = 0.95,
              neighbors = [(2, fresh_estimate 2)] \<rparr>
   \<and> map_of (neighbors \<lparr> observer_drone_id = 1, max_latency_ticks = 50,
              constant_velocity_timeout_ticks = 20, confidence_decay_rate = 0.95,
              neighbors = [(2, fresh_estimate 2)] \<rparr>) 3 = None
   \<and> predict_neighbor_state
         (observer_register_drone (DistributedObserver_init 500 200 0.95) 1 [2]) 1 3 0
       = (None, observer_register_drone (DistributedObserver_init 500 200 0.95) 1 [2])"
proof -
  let ?s = "FireSimulation_init 100 100 10 (constant_draws 0)"
  let ?ob = "observer_register_drone (DistributedObserver_init 500 200 0.95) 1 [2]"
  let ?o = "\<lparr> observer_drone_id = 1, max_latency_ticks = 50,
              constant_velocity_timeout_ticks = 20, confidence_decay_rate = 0.95,
              neighbors = [(2, fresh_estimate 2)] \<rparr>"
  have h1: "\<not> in_bounds ?s (-1) 5"
    by (simp add: in_bounds_def FireSimulation_init_def)
  have h2: "local_states ?ob 7 = None"
    by (simp add: observer_register_drone_def DistributedObserver_init_def)
  have h3: "local_states ?ob 1 = Some ?o"
    by (simp add: observer_register_drone_def DistributedObserver_init_def py_int_def)
  have h4: "map_of (neighbors ?o) 3 = None" by simp
  from invalid_arguments_total [of ?s "-1" 5 1 1 ?ob 7 3 0 "(0, 0, 0)" 10 "(0, 0, 0, 0, 0, 0)"] h1 h2
  have a: "ignite (-1) 5 1 ?s = (False, ?s)" "get_cell ?s (-1) 5 = None"
    "check_collision_risk ?ob 7 0 (0, 0, 0) 10 = ([], ?ob)"
    by simp_all
  from invalid_arguments_total [of ?s 0 0 1 1 ?ob 1 3 0 "(0, 0, 0)" 10 "(0, 0, 0, 0, 0, 0)" ?o] h3 h4
  have b: "predict_neighbor_state ?ob 1 3 0 = (None, ?ob)"
    by simp
  from h1 h2 h3 h4 a b show ?thesis by simp
qed

section \<open>The invariants of the fire grid\<close>






lemma suppress_dims:
  "width (snd (suppress gx gy k s)) = width s" "height (snd (suppress gx gy k s)) = height s"
  by (simp_all add: suppress_def Let_def)
















section \<open>A cell that burns out and is suppressed\<close>









end
